theory Spec2Isabelle
  imports Main "HOL-Library.Word"
begin

section \<open>Lunu: the builder (main.cpp) and the launcher stub (stub.c)\<close>

text \<open>
  Both programs are modelled as functions on an explicit world: what they print, which
  directories and files exist, the thread's last error code and the processes they asked
  the host to create. Results of host calls (Win32) that the programs do not compute
  themselves are fields of a \<open>host\<close> record. Only the programs' own effects are
  recorded: what the spawned child does to the file system is outside the model.
\<close>

subsection \<open>Characters that cannot stand in a string literal\<close>

definition backslash :: char where
  "backslash = CHR 0x5C"

definition dquote :: char where
  "dquote = CHR 0x22"

definition newline :: char where
  "newline = CHR 0x0A"

subsection \<open>The world and the host\<close>

type_synonym DWORD = "32 word"

record world =
  dirs :: "string list"
  files :: "(string \<times> string) list"
  out :: string
  err :: string
  last_error :: DWORD
  spawned :: "(string \<times> string) list"

text \<open>
  \<open>dirs\<close>: the directories that exist; \<open>files\<close>: the files with their contents;
  \<open>out\<close>, \<open>err\<close>: everything written to stdout and stderr; \<open>last_error\<close>: what
  GetLastError() returns; \<open>spawned\<close>: the (command line, working directory) of every
  CreateProcessA call, in order.
\<close>

datatype child = Terminates DWORD | Never_terminates

record host =
  GetModuleFileNameA :: "string option"
  GetTempPathA :: string
  GetCurrentProcessId :: DWORD
  mkdir_fault :: "string \<Rightarrow> DWORD option"
  CreateProcessA :: "string \<Rightarrow> string \<Rightarrow> child option"
  getchar :: "int option"

text \<open>
  \<open>GetModuleFileNameA\<close>: \<open>None\<close> when the call returns 0, else the path it stores.
  \<open>GetTempPathA\<close>: the path the call stores (the stub does not look at its return value).
  \<open>mkdir_fault\<close>: the error, if any, with which the host refuses to create a directory
  that does not exist yet (path not found, access denied, ...).
  \<open>CreateProcessA h cmd_line cwd\<close>: \<open>None\<close> when the call returns FALSE; else the child,
  which either terminates with the exit code that GetExitCodeProcess then stores, or never
  terminates, so that WaitForSingleObject(..., INFINITE) never returns.
  \<open>getchar\<close>: what \<open>getchar()\<close> returns (a byte, or EOF) when stdin delivers something;
  \<open>None\<close> when stdin stays silent, so that the call blocks for ever.
\<close>

datatype outcome =
  Return int | Panic string | Stuck_in_panic string | Never_returns | Undefined

text \<open>
  How a run of a program ends.
  \<^item> \<open>Return i\<close>: \<open>main\<close> returns \<open>i\<close>.
  \<^item> \<open>Panic msg\<close>: \<open>panic(msg)\<close> was called, its \<open>getchar()\<close> returned and the process
    ended in \<open>exit(1)\<close>.
  \<^item> \<open>Stuck_in_panic msg\<close>: \<open>panic(msg)\<close> was called and printed its lines, but its
    \<open>getchar()\<close> never returns: the process does not exit.
  \<^item> \<open>Never_returns\<close>: the wait for the child never ends.
  \<^item> \<open>Undefined\<close>: a \<open>sprintf\<close> is about to write past the end of its buffer. C does not
    define the run from there on, and the model stops: the world given with \<open>Undefined\<close>
    is the world at that point and says nothing about what the process does next (as
    compiled it goes on, with whatever the clobbered buffers then hold).
\<close>

fun process_exit_code :: "outcome \<Rightarrow> DWORD option" where
  "process_exit_code (Return i) = Some (word_of_int i)"
| "process_exit_code (Panic msg) = Some 1"
| "process_exit_code (Stuck_in_panic msg) = None"
| "process_exit_code Never_returns = None"
| "process_exit_code Undefined = None"

definition print :: "string \<Rightarrow> world \<Rightarrow> world" where
  "print s w = w\<lparr>out := out w @ s\<rparr>"

definition eprint :: "string \<Rightarrow> world \<Rightarrow> world" where
  "eprint s w = w\<lparr>err := err w @ s\<rparr>"

subsection \<open>main.cpp\<close>

text \<open>\<open>std::string::find_last_of\<close> for one character: \<open>None\<close> is \<open>npos\<close>.\<close>

fun find_last_of :: "string \<Rightarrow> char \<Rightarrow> nat option" where
  "find_last_of [] c = None"
| "find_last_of (x # xs) c =
     (case find_last_of xs c of
        Some i \<Rightarrow> Some (Suc i)
      | None \<Rightarrow> if x = c then Some 0 else None)"

text \<open>\<open>s.substr(0, n)\<close>: the first \<open>n\<close> characters, all of them when \<open>n\<close> is \<open>npos\<close>.\<close>

fun substr0 :: "string \<Rightarrow> nat option \<Rightarrow> string" where
  "substr0 s None = s"
| "substr0 s (Some n) = take n s"

text \<open>Line 33: \<open>filename.substr(0, filename.find_last_of(".")) + ".exe"\<close>.\<close>

definition output_exe :: "string \<Rightarrow> string" where
  "output_exe filename = substr0 filename (find_last_of filename CHR ''.'') @ ''.exe''"

definition print_usage :: "world \<Rightarrow> world" where
  "print_usage w =
     print (''  version             Show version'' @ [newline])
       (print (''  build <file.luau>   Compile a Luau file (placeholder)'' @ [newline])
         (print (''Commands:'' @ [newline])
           (print (''Usage: lunu-builder <command> [options]'' @ [newline])
             (print (''Lunu Builder v0.1.0'' @ [newline]) w))))"

text \<open>
  \<open>main(argc, argv)\<close> of the builder; \<open>argc\<close> is \<open>length argv\<close>. The \<open>build\<close> branch
  opens no file: it derives the output name, prints five lines and returns 0.
\<close>

definition builder_main :: "string list \<Rightarrow> world \<Rightarrow> outcome \<times> world" where
  "builder_main argv w =
     (if length argv < 2 then (Return 1, print_usage w)
      else
        let command = argv ! 1 in
        if command = ''version'' then (Return 0, print (''Lunu Builder v0.1.0'' @ [newline]) w)
        else if command = ''build'' then
          (if length argv < 3
           then (Return 1, eprint (''Error: Missing file argument.'' @ [newline]) w)
           else
             let filename = argv ! 2;
                 w1 = print (''[Builder] Processing '' @ filename @ ''...'' @ [newline]) w;
                 w2 = print (''[Builder] Target: Standalone Executable'' @ [newline]) w1;
                 w3 = print (''[Builder] Output: ./'' @ output_exe filename
                               @ '' (In current directory)'' @ [newline]) w2;
                 w4 = print (''[Builder] TODO: Implement Luau compilation & packing logic here.''
                               @ [newline]) w3
             in (Return 0, w4))
        else (Return 1, print_usage (eprint (''Unknown command: '' @ command @ [newline]) w)))"

subsection \<open>stub.c\<close>

definition MAX_PATH :: nat where
  "MAX_PATH = 260"

definition ERROR_ALREADY_EXISTS :: DWORD where
  "ERROR_ALREADY_EXISTS = 183"

text \<open>A string fits a \<open>char[n]\<close> buffer when there is room for it and its final NUL.\<close>

definition fits :: "nat \<Rightarrow> string \<Rightarrow> bool" where
  "fits n s = (length s < n)"

text \<open>\<open>%lu\<close>: an unsigned number in decimal.\<close>

definition digit :: "nat \<Rightarrow> char" where
  "digit d = ''0123456789'' ! d"

function dec :: "nat \<Rightarrow> string" where
  "dec n = (if n < 10 then [digit n] else dec (n div 10) @ [digit (n mod 10)])"
  by pat_completeness auto
termination
  by (relation "measure (\<lambda>n. n)") auto

text \<open>
  \<open>panic\<close>: two lines on stderr, then \<open>getchar()\<close>, then \<open>exit(1)\<close>. The value that
  \<open>getchar()\<close> returns is not used; when it does not return, \<open>exit(1)\<close> is not reached.
\<close>

definition panic :: "host \<Rightarrow> string \<Rightarrow> world \<Rightarrow> outcome \<times> world" where
  "panic h msg w =
     (case getchar h of
        None \<Rightarrow> Stuck_in_panic msg
      | Some c \<Rightarrow> Panic msg,
      eprint (''Press Enter to exit...'' @ [newline])
        (eprint ([newline] @ ''[Lunu Stub] CRITICAL: '' @ msg @ [newline]) w))"

text \<open>\<open>extract_payload\<close>: its body is one \<open>printf\<close>; the steps in its comment are not code.\<close>

definition extract_payload :: "string \<Rightarrow> string \<Rightarrow> world \<Rightarrow> world" where
  "extract_payload exe_path out_dir w =
     print (''[Stub] Extracting payload from '' @ exe_path @ '' to '' @ out_dir @ ''...''
              @ [newline]) w"

text \<open>
  \<open>CreateDirectoryA\<close>: FALSE with ERROR_ALREADY_EXISTS when a directory or a file of that
  name exists, FALSE with the host's error when the host refuses, else TRUE and the
  directory exists. The BOOL is the first component; the error code is left in
  \<open>last_error\<close>.
\<close>

definition CreateDirectoryA :: "host \<Rightarrow> string \<Rightarrow> world \<Rightarrow> bool \<times> world" where
  "CreateDirectoryA h path w =
     (if path \<in> set (dirs w) \<or> path \<in> set (map fst (files w))
      then (False, w\<lparr>last_error := ERROR_ALREADY_EXISTS\<rparr>)
      else
        (case mkdir_fault h path of
           Some e \<Rightarrow> (False, w\<lparr>last_error := e\<rparr>)
         | None \<Rightarrow> (True, w\<lparr>dirs := path # dirs w\<rparr>)))"

text \<open>The strings \<open>main\<close> builds with \<open>sprintf\<close>.\<close>

definition unique_dir :: "host \<Rightarrow> string" where
  "unique_dir h = GetTempPathA h @ ''lunu_'' @ dec (unat (GetCurrentProcessId h))"

definition lune_path :: "string \<Rightarrow> string" where
  "lune_path dir = dir @ [backslash] @ ''bin'' @ [backslash] @ ''lune.exe''"

definition script_path :: "string \<Rightarrow> string" where
  "script_path dir = dir @ [backslash] @ ''src'' @ [backslash] @ ''main.luau''"

definition cmd_line :: "string \<Rightarrow> string" where
  "cmd_line dir =
     [dquote] @ lune_path dir @ [dquote] @ '' run '' @ [dquote] @ script_path dir @ [dquote]"

text \<open>
  \<open>main\<close> of the stub, in two parts. \<open>launch\<close> is lines 43 to 78, all that follows the
  creation of the directory: \<open>extract_payload\<close>, the three \<open>sprintf\<close>, CreateProcessA, the
  wait and \<open>return exit_code\<close> (the DWORD converted to int). The line
  \<open>// RemoveDirectoryA(unique_dir);\<close> under \<open>// Cleanup\<close> is a comment, so nothing follows
  CloseHandle but the \<open>return\<close>. \<open>stub_main\<close> is lines 27 to 41 followed by \<open>launch\<close>.

  The tests with \<open>fits\<close> are not tests of the code: they mark the runs in which every
  \<open>sprintf\<close> stays inside its buffer, the only runs whose course C defines.
\<close>

definition launch :: "host \<Rightarrow> string \<Rightarrow> string \<Rightarrow> world \<Rightarrow> outcome \<times> world" where
  "launch h exe_path dir w1 =
     (let w2 = extract_payload exe_path dir w1 in
      if fits MAX_PATH (lune_path dir)
         \<and> fits MAX_PATH (script_path dir)
         \<and> fits (MAX_PATH * 2) (cmd_line dir)
      then
        let w3 = w2\<lparr>spawned := spawned w2 @ [(cmd_line dir, dir)]\<rparr> in
          (case CreateProcessA h (cmd_line dir) dir of
             None \<Rightarrow> panic h ''Failed to start Lune runtime'' w3
           | Some Never_terminates \<Rightarrow> (Never_returns, w3)
           | Some (Terminates exit_code) \<Rightarrow> (Return (sint exit_code), w3))
      else (Undefined, w2))"

definition stub_main :: "host \<Rightarrow> world \<Rightarrow> outcome \<times> world" where
  "stub_main h w =
     (case GetModuleFileNameA h of
        None \<Rightarrow> panic h ''Failed to get executable path'' w
      | Some exe_path \<Rightarrow>
          if fits MAX_PATH (unique_dir h) then
            (case CreateDirectoryA h (unique_dir h) w of
               (created, w1) \<Rightarrow>
                 if \<not> created \<and> last_error w1 \<noteq> ERROR_ALREADY_EXISTS
                 then panic h ''Failed to create temp directory'' w1
                 else launch h exe_path (unique_dir h) w1)
          else (Undefined, w))"

subsection \<open>Concrete worlds and hosts\<close>

definition empty_world :: world where
  "empty_world = \<lparr>dirs = [], files = [], out = [], err = [], last_error = 0, spawned = []\<rparr>"

definition app_exe :: string where
  "app_exe = ''C:'' @ [backslash] @ ''app.exe''"

text \<open>
  A host on which the launcher runs as process 4242 from the file \<open>app.exe\<close> in the
  root of drive C, the temp root is the directory \<open>Temp\<close> there, directories can be
  created, every CreateProcessA call has the result \<open>c\<close>, and Enter is pressed when
  \<open>getchar()\<close> asks.
\<close>

definition demo_host :: "child option \<Rightarrow> host" where
  "demo_host c =
     \<lparr>GetModuleFileNameA = Some app_exe,
      GetTempPathA = ''C:'' @ [backslash] @ ''Temp'' @ [backslash],
      GetCurrentProcessId = 4242,
      mkdir_fault = (\<lambda>path. None),
      CreateProcessA = (\<lambda>cmd cwd. c),
      getchar = Some 10\<rparr>"

text \<open>The same host, refusing to create directories with ERROR_ACCESS_DENIED (5).\<close>

definition denying_host :: host where
  "denying_host = (demo_host None)\<lparr>mkdir_fault := (\<lambda>path. Some 5)\<rparr>"

definition demo_dir :: string where
  "demo_dir = ''C:'' @ [backslash] @ ''Temp'' @ [backslash] @ ''lunu_4242''"

text \<open>
  A host whose temp root is a directory with a name of 232 letters in the root of drive C:
  236 characters with the drive and both backslashes, so that the temp directory of
  process 4242 has a name of 245 characters.
\<close>

definition long_host :: host where
  "long_host =
     (demo_host (Some (Terminates 0)))
       \<lparr>GetTempPathA := ''C:'' @ [backslash] @ replicate 232 CHR ''a'' @ [backslash]\<rparr>"

text \<open>The line that \<open>extract_payload\<close> prints.\<close>

definition extraction_line :: "string \<Rightarrow> string \<Rightarrow> string" where
  "extraction_line exe_path out_dir =
     ''[Stub] Extracting payload from '' @ exe_path @ '' to '' @ out_dir @ ''...'' @ [newline]"

section \<open>Facts about the stub\<close>

lemmas stub_defs =
  stub_main_def launch_def Let_def panic_def extract_payload_def print_def eprint_def
  CreateDirectoryA_def

lemma unique_dir_demo_host [simp]: "unique_dir (demo_host c) = demo_dir"
  by (simp add: unique_dir_def demo_host_def demo_dir_def digit_def)

lemma unique_dir_denying_host [simp]: "unique_dir denying_host = demo_dir"
  by (simp add: unique_dir_def denying_host_def demo_host_def demo_dir_def digit_def)

lemma unique_dir_silent: "unique_dir (h\<lparr>getchar := g\<rparr>) = unique_dir h"
  by (simp add: unique_dir_def)

lemma fits_demo_dir [simp]:
  "fits MAX_PATH demo_dir" "fits MAX_PATH (lune_path demo_dir)"
  "fits MAX_PATH (script_path demo_dir)" "fits (MAX_PATH * 2) (cmd_line demo_dir)"
  by (simp_all add: fits_def MAX_PATH_def demo_dir_def cmd_line_def lune_path_def
      script_path_def)

text \<open>What the launcher does on the demo host, started in a world \<open>w\<close> without its directory.\<close>

lemma stub_main_demo_host:
  assumes "demo_dir \<notin> set (dirs w)" and "demo_dir \<notin> set (map fst (files w))"
  shows "fst (stub_main (demo_host c) w) =
           (case c of
              None \<Rightarrow> Panic ''Failed to start Lune runtime''
            | Some Never_terminates \<Rightarrow> Never_returns
            | Some (Terminates exit_code) \<Rightarrow> Return (sint exit_code))"
    and "dirs (snd (stub_main (demo_host c) w)) = demo_dir # dirs w"
    and "spawned (snd (stub_main (demo_host c) w)) = spawned w @ [(cmd_line demo_dir, demo_dir)]"
proof -
  have mk: "CreateDirectoryA (demo_host c) demo_dir w = (True, w\<lparr>dirs := demo_dir # dirs w\<rparr>)"
    using assms by (simp add: CreateDirectoryA_def demo_host_def)
  have gm: "GetModuleFileNameA (demo_host c) = Some app_exe"
    and cp: "CreateProcessA (demo_host c) (cmd_line demo_dir) demo_dir = c"
    by (simp_all add: demo_host_def)
  have gc: "getchar (demo_host c') = Some 10" for c'
    by (simp add: demo_host_def)
  note defs = stub_main_def launch_def mk gm cp gc Let_def panic_def extract_payload_def
    print_def eprint_def
  show "fst (stub_main (demo_host c) w) =
           (case c of
              None \<Rightarrow> Panic ''Failed to start Lune runtime''
            | Some Never_terminates \<Rightarrow> Never_returns
            | Some (Terminates exit_code) \<Rightarrow> Return (sint exit_code))"
    by (simp add: defs split: option.split child.split)
  show "dirs (snd (stub_main (demo_host c) w)) = demo_dir # dirs w"
    by (simp add: defs split: option.split child.split)
  show "spawned (snd (stub_main (demo_host c) w)) = spawned w @ [(cmd_line demo_dir, demo_dir)]"
    by (simp add: defs split: option.split child.split)
qed

text \<open>What \<open>panic\<close> and \<open>launch\<close> leave of the world.\<close>

lemma panic_world [simp]:
  "out (snd (panic h msg w)) = out w" "dirs (snd (panic h msg w)) = dirs w"
  "files (snd (panic h msg w)) = files w" "spawned (snd (panic h msg w)) = spawned w"
  by (simp_all add: panic_def print_def eprint_def)

lemma fst_panic:
  "fst (panic h msg w) = (case getchar h of None \<Rightarrow> Stuck_in_panic msg | Some c \<Rightarrow> Panic msg)"
  by (simp add: panic_def)

lemma out_launch: "out (snd (launch h exe_path dir w)) = out w @ extraction_line exe_path dir"
  by (simp add: launch_def Let_def extract_payload_def extraction_line_def print_def panic_def
      eprint_def split: option.split child.split)

lemma dirs_launch: "dirs (snd (launch h exe_path dir w)) = dirs w"
  by (simp add: launch_def Let_def extract_payload_def print_def panic_def eprint_def
      split: option.split child.split)

lemma files_launch: "files (snd (launch h exe_path dir w)) = files w"
  by (simp add: launch_def Let_def extract_payload_def print_def panic_def eprint_def
      split: option.split child.split)

lemma launch_no_temp_dir_panic:
  "fst (launch h exe_path dir w) \<noteq> Panic ''Failed to create temp directory''"
  "fst (launch h exe_path dir w) \<noteq> Stuck_in_panic ''Failed to create temp directory''"
  by (simp_all add: launch_def Let_def panic_def split: option.split child.split)

text \<open>The creation step, for every answer of CreateDirectoryA.\<close>

lemma stub_main_created:
  assumes "GetModuleFileNameA h = Some exe_path" and "fits MAX_PATH (unique_dir h)"
    and "CreateDirectoryA h (unique_dir h) w = (True, w')"
  shows "stub_main h w = launch h exe_path (unique_dir h) w'"
  using assms by (simp add: stub_main_def)

lemma stub_main_already_exists:
  assumes "GetModuleFileNameA h = Some exe_path" and "fits MAX_PATH (unique_dir h)"
    and "CreateDirectoryA h (unique_dir h) w = (False, w')"
    and "last_error w' = ERROR_ALREADY_EXISTS"
  shows "stub_main h w = launch h exe_path (unique_dir h) w'"
  using assms by (simp add: stub_main_def)

lemma stub_main_creation_failed:
  assumes "GetModuleFileNameA h = Some exe_path" and "fits MAX_PATH (unique_dir h)"
    and "CreateDirectoryA h (unique_dir h) w = (False, w')"
    and "last_error w' \<noteq> ERROR_ALREADY_EXISTS"
  shows "stub_main h w = panic h ''Failed to create temp directory'' w'"
  using assms by (simp add: stub_main_def)

lemma CreateDirectoryA_existing:
  "d \<in> set (dirs w) \<Longrightarrow>
   CreateDirectoryA h d w = (False, w\<lparr>last_error := ERROR_ALREADY_EXISTS\<rparr>)"
  by (simp add: CreateDirectoryA_def)

lemma CreateDirectoryA_True:
  "CreateDirectoryA h d w = (True, w') \<Longrightarrow> d \<in> set (dirs w')"
  by (auto simp: CreateDirectoryA_def split: if_splits option.splits)

text \<open>The only panic of the creation step, characterised by the host and the world.\<close>

lemma temp_dir_panic_iff:
  "fst (stub_main h w) = Panic ''Failed to create temp directory''
   \<or> fst (stub_main h w) = Stuck_in_panic ''Failed to create temp directory'' \<longleftrightarrow>
     GetModuleFileNameA h \<noteq> None \<and> fits MAX_PATH (unique_dir h)
     \<and> unique_dir h \<notin> set (dirs w) \<and> unique_dir h \<notin> set (map fst (files w))
     \<and> (\<exists>e. mkdir_fault h (unique_dir h) = Some e \<and> e \<noteq> ERROR_ALREADY_EXISTS)"
  by (auto simp: stub_defs split: option.splits if_splits prod.splits child.splits)

text \<open>The launcher writes no file and removes no directory.\<close>

lemma files_stub_main: "files (snd (stub_main h w)) = files w"
  by (auto simp: stub_defs split: option.splits if_splits prod.splits child.splits)

lemma dirs_stub_main: "set (dirs w) \<subseteq> set (dirs (snd (stub_main h w)))"
  by (auto simp: stub_defs split: option.splits if_splits prod.splits child.splits)

text \<open>Once the child exists, nothing more is written to stderr.\<close>

lemma err_stub_main_spawned:
  "CreateProcessA h (cmd_line (unique_dir h)) (unique_dir h) \<noteq> None \<Longrightarrow>
   fst (stub_main h w) \<noteq> Panic ''Failed to create temp directory'' \<Longrightarrow>
   fst (stub_main h w) \<noteq> Stuck_in_panic ''Failed to create temp directory'' \<Longrightarrow>
   GetModuleFileNameA h \<noteq> None \<Longrightarrow>
   err (snd (stub_main h w)) = err w"
  by (auto simp: stub_defs split: option.splits if_splits prod.splits child.splits)

text \<open>The lengths of the strings built from the temp directory.\<close>

lemma length_paths:
  "length (lune_path dir) = length dir + 13"
  "length (script_path dir) = length dir + 14"
  "length (cmd_line dir) = 2 * length dir + 36"
  by (simp_all add: lune_path_def script_path_def cmd_line_def)

lemma fits_cmd_line_iff: "fits (MAX_PATH * 2) (cmd_line dir) \<longleftrightarrow> length dir \<le> 241"
  by (auto simp: fits_def MAX_PATH_def length_paths)

section \<open>The launcher's exit code (C5)\<close>

text \<open>
  C5. Whenever a run of the launcher has created the child process and the child
  terminates with exit code \<open>c\<close> (the run reaches \<open>return exit_code\<close>), \<open>main\<close> returns
  that DWORD converted to int, and the exit code of the launcher process, the int
  converted back to 32 bits, is \<open>c\<close>. The run has spawned when its CreateProcessA call is
  the new last entry of \<open>spawned\<close>.
\<close>

theorem exit_code_forwarded:
  assumes "stub_main h w = (r, w')"
    and "spawned w' = spawned w @ [(cmd, cwd)]"
    and "CreateProcessA h cmd cwd = Some (Terminates c)"
  shows "r = Return (sint c) \<and> process_exit_code r = Some c"
  using assms
  by (auto simp: stub_defs split: option.splits if_splits prod.splits child.splits)

text \<open>A bundled runtime that exits with code 7 makes the launcher exit with code 7.\<close>

theorem exit_code_forwarded_witness:
  "fst (stub_main (demo_host (Some (Terminates 7))) empty_world) = Return 7
   \<and> process_exit_code (fst (stub_main (demo_host (Some (Terminates 7))) empty_world)) = Some 7"
proof -
  let ?h = "demo_host (Some (Terminates 7))"
  have fresh: "demo_dir \<notin> set (dirs empty_world)" "demo_dir \<notin> set (map fst (files empty_world))"
    by (simp_all add: empty_world_def)
  have run: "stub_main ?h empty_world = (fst (stub_main ?h empty_world), snd (stub_main ?h empty_world))"
    by simp
  have sp: "spawned (snd (stub_main ?h empty_world)) =
      spawned empty_world @ [(cmd_line demo_dir, demo_dir)]"
    using fresh by (rule stub_main_demo_host(3))
  have cp: "CreateProcessA ?h (cmd_line demo_dir) demo_dir = Some (Terminates 7)"
    by (simp add: demo_host_def)
  from exit_code_forwarded [OF run sp cp] show ?thesis
    by simp
qed

section \<open>Creating the temp directory (C9)\<close>

text \<open>
  C9. The creation step tolerates a directory that is already there and fails on every
  other error. Its failure is \<open>panic("Failed to create temp directory")\<close>, the stub's
  TempDirError. For a host that gives the executable's path and a temp directory name
  that fits its buffer, in four parts:
  \<^item> when the directory exists before the run, the run is the rest of \<open>main\<close> (\<open>launch\<close>),
    started with the last error ERROR_ALREADY_EXISTS: it goes on to \<open>extract_payload\<close>,
    whose line is what the run adds to stdout, and it does not end in that panic;
  \<^item> when CreateDirectoryA returns TRUE, the run is the rest of \<open>main\<close>, the directory
    exists afterwards, and a second run with the same host (the same derived name) in the
    world the first one left is again the rest of \<open>main\<close>: it does not end in that panic,
    and stdout holds the line of \<open>extract_payload\<close> twice;
  \<^item> when CreateDirectoryA returns FALSE with the last error ERROR_ALREADY_EXISTS, for
    whatever reason (a file of that name included), the run is the rest of \<open>main\<close>;
  \<^item> when CreateDirectoryA returns FALSE with any other last error, the run is that
    panic: nothing is extracted or spawned, and the process exits with code 1 once
    \<open>getchar()\<close> returns; when it never does, the process stays in \<open>panic\<close>.
\<close>

theorem temp_dir_creation:
  assumes "GetModuleFileNameA h = Some exe_path" and "fits MAX_PATH (unique_dir h)"
  shows
  "(unique_dir h \<in> set (dirs w) \<longrightarrow>
      stub_main h w
        = launch h exe_path (unique_dir h) (w\<lparr>last_error := ERROR_ALREADY_EXISTS\<rparr>)
      \<and> out (snd (stub_main h w)) = out w @ extraction_line exe_path (unique_dir h)
      \<and> fst (stub_main h w) \<noteq> Panic ''Failed to create temp directory''
      \<and> fst (stub_main h w) \<noteq> Stuck_in_panic ''Failed to create temp directory'')
   \<and> (CreateDirectoryA h (unique_dir h) w = (True, w') \<longrightarrow>
      stub_main h w = launch h exe_path (unique_dir h) w'
      \<and> unique_dir h \<in> set (dirs (snd (stub_main h w)))
      \<and> stub_main h (snd (stub_main h w))
          = launch h exe_path (unique_dir h)
              ((snd (stub_main h w))\<lparr>last_error := ERROR_ALREADY_EXISTS\<rparr>)
      \<and> out (snd (stub_main h (snd (stub_main h w))))
          = out w @ extraction_line exe_path (unique_dir h)
              @ extraction_line exe_path (unique_dir h)
      \<and> fst (stub_main h (snd (stub_main h w))) \<noteq> Panic ''Failed to create temp directory''
      \<and> fst (stub_main h (snd (stub_main h w)))
          \<noteq> Stuck_in_panic ''Failed to create temp directory'')
   \<and> (CreateDirectoryA h (unique_dir h) w = (False, w')
        \<and> last_error w' = ERROR_ALREADY_EXISTS \<longrightarrow>
      stub_main h w = launch h exe_path (unique_dir h) w'
      \<and> out (snd (stub_main h w)) = out w' @ extraction_line exe_path (unique_dir h)
      \<and> fst (stub_main h w) \<noteq> Panic ''Failed to create temp directory''
      \<and> fst (stub_main h w) \<noteq> Stuck_in_panic ''Failed to create temp directory'')
   \<and> (CreateDirectoryA h (unique_dir h) w = (False, w')
        \<and> last_error w' \<noteq> ERROR_ALREADY_EXISTS \<longrightarrow>
      stub_main h w = panic h ''Failed to create temp directory'' w'
      \<and> out (snd (stub_main h w)) = out w'
      \<and> spawned (snd (stub_main h w)) = spawned w'
      \<and> fst (stub_main h w)
          = (case getchar h of
               None \<Rightarrow> Stuck_in_panic ''Failed to create temp directory''
             | Some c \<Rightarrow> Panic ''Failed to create temp directory'')
      \<and> process_exit_code (fst (stub_main h w))
          = (case getchar h of None \<Rightarrow> None | Some c \<Rightarrow> Some 1))"
proof (intro conjI impI)
  assume there: "unique_dir h \<in> set (dirs w)"
  then have "CreateDirectoryA h (unique_dir h) w
      = (False, w\<lparr>last_error := ERROR_ALREADY_EXISTS\<rparr>)"
    by (rule CreateDirectoryA_existing)
  with assms show run: "stub_main h w
      = launch h exe_path (unique_dir h) (w\<lparr>last_error := ERROR_ALREADY_EXISTS\<rparr>)"
    by (simp add: stub_main_already_exists)
  show "out (snd (stub_main h w)) = out w @ extraction_line exe_path (unique_dir h)"
    by (simp add: run out_launch)
  show "fst (stub_main h w) \<noteq> Panic ''Failed to create temp directory''"
    and "fst (stub_main h w) \<noteq> Stuck_in_panic ''Failed to create temp directory''"
    by (simp_all only: run launch_no_temp_dir_panic not_False_eq_True)
next
  assume made: "CreateDirectoryA h (unique_dir h) w = (True, w')"
  with assms show run: "stub_main h w = launch h exe_path (unique_dir h) w'"
    by (rule stub_main_created)
  from made have "unique_dir h \<in> set (dirs w')" and outw: "out w' = out w"
    by (auto simp: CreateDirectoryA_def split: if_splits option.splits)
  then show there: "unique_dir h \<in> set (dirs (snd (stub_main h w)))"
    by (simp add: run dirs_launch)
  then have "CreateDirectoryA h (unique_dir h) (snd (stub_main h w))
      = (False, (snd (stub_main h w))\<lparr>last_error := ERROR_ALREADY_EXISTS\<rparr>)"
    by (rule CreateDirectoryA_existing)
  with assms show again: "stub_main h (snd (stub_main h w))
      = launch h exe_path (unique_dir h)
          ((snd (stub_main h w))\<lparr>last_error := ERROR_ALREADY_EXISTS\<rparr>)"
    by (simp add: stub_main_already_exists)
  have "out (snd (stub_main h w)) = out w @ extraction_line exe_path (unique_dir h)"
    by (simp add: run out_launch outw)
  then show "out (snd (stub_main h (snd (stub_main h w))))
      = out w @ extraction_line exe_path (unique_dir h)
          @ extraction_line exe_path (unique_dir h)"
    by (simp add: again out_launch)
  show "fst (stub_main h (snd (stub_main h w))) \<noteq> Panic ''Failed to create temp directory''"
    and "fst (stub_main h (snd (stub_main h w)))
          \<noteq> Stuck_in_panic ''Failed to create temp directory''"
    by (simp_all only: again launch_no_temp_dir_panic not_False_eq_True)
next
  assume a: "CreateDirectoryA h (unique_dir h) w = (False, w')
      \<and> last_error w' = ERROR_ALREADY_EXISTS"
  with assms show run: "stub_main h w = launch h exe_path (unique_dir h) w'"
    by (simp add: stub_main_already_exists)
  show "out (snd (stub_main h w)) = out w' @ extraction_line exe_path (unique_dir h)"
    by (simp add: run out_launch)
  show "fst (stub_main h w) \<noteq> Panic ''Failed to create temp directory''"
    and "fst (stub_main h w) \<noteq> Stuck_in_panic ''Failed to create temp directory''"
    by (simp_all only: run launch_no_temp_dir_panic not_False_eq_True)
next
  assume a: "CreateDirectoryA h (unique_dir h) w = (False, w')
      \<and> last_error w' \<noteq> ERROR_ALREADY_EXISTS"
  with assms show run: "stub_main h w = panic h ''Failed to create temp directory'' w'"
    by (simp add: stub_main_creation_failed)
  show "out (snd (stub_main h w)) = out w'"
    and "spawned (snd (stub_main h w)) = spawned w'"
    by (simp_all add: run)
  show "fst (stub_main h w)
      = (case getchar h of
           None \<Rightarrow> Stuck_in_panic ''Failed to create temp directory''
         | Some c \<Rightarrow> Panic ''Failed to create temp directory'')"
    by (simp add: run fst_panic)
  then show "process_exit_code (fst (stub_main h w))
      = (case getchar h of None \<Rightarrow> None | Some c \<Rightarrow> Some 1)"
    by (simp split: option.split)
qed

text \<open>
  On the demo host with a child that exits with code 0: a run with the directory in place;
  two runs in a row starting without it; a run with a file of that name in the way. On
  the host that denies access: a run with Enter pressed in \<open>panic\<close>, and a run with a
  silent stdin.
\<close>

theorem temp_dir_creation_witness:
  "fst (stub_main (demo_host (Some (Terminates 0))) (empty_world\<lparr>dirs := [demo_dir]\<rparr>))
     \<noteq> Panic ''Failed to create temp directory''
   \<and> stub_main (demo_host (Some (Terminates 0))) (empty_world\<lparr>dirs := [demo_dir]\<rparr>)
     = launch (demo_host (Some (Terminates 0))) app_exe demo_dir
         (empty_world\<lparr>dirs := [demo_dir], last_error := ERROR_ALREADY_EXISTS\<rparr>)
   \<and> out (snd (stub_main (demo_host (Some (Terminates 0))) (empty_world\<lparr>dirs := [demo_dir]\<rparr>)))
     = extraction_line app_exe demo_dir
   \<and> fst (stub_main (demo_host (Some (Terminates 0)))
            (snd (stub_main (demo_host (Some (Terminates 0))) empty_world)))
     \<noteq> Panic ''Failed to create temp directory''
   \<and> demo_dir \<in> set (dirs (snd (stub_main (demo_host (Some (Terminates 0))) empty_world)))
   \<and> out (snd (stub_main (demo_host (Some (Terminates 0)))
                 (snd (stub_main (demo_host (Some (Terminates 0))) empty_world))))
     = extraction_line app_exe demo_dir @ extraction_line app_exe demo_dir
   \<and> stub_main (demo_host (Some (Terminates 0))) (empty_world\<lparr>files := [(demo_dir, [])]\<rparr>)
     = launch (demo_host (Some (Terminates 0))) app_exe demo_dir
         (empty_world\<lparr>files := [(demo_dir, [])], last_error := ERROR_ALREADY_EXISTS\<rparr>)
   \<and> stub_main denying_host empty_world
     = panic denying_host ''Failed to create temp directory'' (empty_world\<lparr>last_error := 5\<rparr>)
   \<and> fst (stub_main denying_host empty_world) = Panic ''Failed to create temp directory''
   \<and> process_exit_code (fst (stub_main denying_host empty_world)) = Some 1
   \<and> fst (stub_main (denying_host\<lparr>getchar := None\<rparr>) empty_world)
     = Stuck_in_panic ''Failed to create temp directory''
   \<and> process_exit_code (fst (stub_main (denying_host\<lparr>getchar := None\<rparr>) empty_world)) = None"
proof -
  let ?h = "demo_host (Some (Terminates 0))"
  let ?there = "empty_world\<lparr>dirs := [demo_dir]\<rparr>"
  let ?file = "empty_world\<lparr>files := [(demo_dir, [])]\<rparr>"
  let ?silent = "denying_host\<lparr>getchar := None\<rparr>"
  let ?T = "''Failed to create temp directory''"
  have exe: "GetModuleFileNameA ?h = Some app_exe"
    by (simp add: demo_host_def)
  have fit: "fits MAX_PATH (unique_dir ?h)"
    by simp
  have empty: "dirs empty_world = []" "files empty_world = []" "out empty_world = []"
    by (simp_all add: empty_world_def)
  \<comment> \<open>the directory is there\<close>
  have there: "unique_dir ?h \<in> set (dirs ?there)"
    by simp
  from there temp_dir_creation [OF exe fit, of ?there]
  have a: "fst (stub_main ?h ?there) \<noteq> Panic ?T"
    and "stub_main ?h ?there
        = launch ?h app_exe (unique_dir ?h) (?there\<lparr>last_error := ERROR_ALREADY_EXISTS\<rparr>)"
    and "out (snd (stub_main ?h ?there)) = out ?there @ extraction_line app_exe (unique_dir ?h)"
    by blast+
  then have c: "stub_main ?h ?there
        = launch ?h app_exe demo_dir
            (empty_world\<lparr>dirs := [demo_dir], last_error := ERROR_ALREADY_EXISTS\<rparr>)"
    and c': "out (snd (stub_main ?h ?there)) = extraction_line app_exe demo_dir"
    by (simp_all add: empty)
  \<comment> \<open>two runs in a row\<close>
  have "CreateDirectoryA ?h demo_dir empty_world = (True, ?there)"
    by (simp add: CreateDirectoryA_def empty demo_host_def)
  then have made: "CreateDirectoryA ?h (unique_dir ?h) empty_world = (True, ?there)"
    by simp
  from made temp_dir_creation [OF exe fit, of empty_world ?there]
  have d: "unique_dir ?h \<in> set (dirs (snd (stub_main ?h empty_world)))
      \<and> out (snd (stub_main ?h (snd (stub_main ?h empty_world))))
        = out empty_world @ extraction_line app_exe (unique_dir ?h)
            @ extraction_line app_exe (unique_dir ?h)"
    and b: "fst (stub_main ?h (snd (stub_main ?h empty_world))) \<noteq> Panic ?T"
    by blast+
  \<comment> \<open>a file in the way\<close>
  have blocked: "CreateDirectoryA ?h (unique_dir ?h) ?file
      = (False, ?file\<lparr>last_error := ERROR_ALREADY_EXISTS\<rparr>)
      \<and> last_error (?file\<lparr>last_error := ERROR_ALREADY_EXISTS\<rparr>) = ERROR_ALREADY_EXISTS"
    by (simp add: CreateDirectoryA_def)
  from blocked
    temp_dir_creation [OF exe fit, of ?file "?file\<lparr>last_error := ERROR_ALREADY_EXISTS\<rparr>"]
  have "stub_main ?h ?file
      = launch ?h app_exe (unique_dir ?h) (?file\<lparr>last_error := ERROR_ALREADY_EXISTS\<rparr>)"
    by blast
  then have e: "stub_main ?h ?file
      = launch ?h app_exe demo_dir
          (empty_world\<lparr>files := [(demo_dir, [])], last_error := ERROR_ALREADY_EXISTS\<rparr>)"
    by simp
  \<comment> \<open>access denied\<close>
  have refused: "CreateDirectoryA (denying_host\<lparr>getchar := g\<rparr>) demo_dir empty_world
      = (False, empty_world\<lparr>last_error := 5\<rparr>)" for g
    by (simp add: denying_host_def demo_host_def CreateDirectoryA_def empty)
  have "denying_host\<lparr>getchar := Some 10\<rparr> = denying_host"
    by (simp add: denying_host_def demo_host_def)
  with refused [of "Some 10"]
  have "CreateDirectoryA denying_host demo_dir empty_world
      = (False, empty_world\<lparr>last_error := 5\<rparr>)"
    by simp
  then have denied3: "CreateDirectoryA denying_host (unique_dir denying_host) empty_world
      = (False, empty_world\<lparr>last_error := 5\<rparr>)"
    by simp
  have denied1: "GetModuleFileNameA denying_host = Some app_exe"
    and denied5: "getchar denying_host = Some 10"
    by (simp_all add: denying_host_def demo_host_def)
  have denied2: "fits MAX_PATH (unique_dir denying_host)"
    by simp
  have denied4: "last_error (empty_world\<lparr>last_error := 5\<rparr>) \<noteq> ERROR_ALREADY_EXISTS"
    by (simp add: ERROR_ALREADY_EXISTS_def)
  note denied = denied1 denied2 denied3 denied4 denied5
  from denied3 denied4
    temp_dir_creation [OF denied1 denied2, of empty_world "empty_world\<lparr>last_error := 5\<rparr>"]
  have f: "stub_main denying_host empty_world
        = panic denying_host ?T (empty_world\<lparr>last_error := 5\<rparr>)"
    and f2: "fst (stub_main denying_host empty_world)
          = (case getchar denying_host of None \<Rightarrow> Stuck_in_panic ?T | Some c \<Rightarrow> Panic ?T)"
    and f3: "process_exit_code (fst (stub_main denying_host empty_world))
          = (case getchar denying_host of None \<Rightarrow> None | Some c \<Rightarrow> Some 1)"
    by blast+
  from f2 have f': "fst (stub_main denying_host empty_world) = Panic ?T"
    by (simp add: denied5)
  from f3 have f'': "process_exit_code (fst (stub_main denying_host empty_world)) = Some 1"
    by (simp add: denied5)
  have us: "unique_dir ?silent = demo_dir"
    by (simp add: unique_dir_silent)
  have silent1: "GetModuleFileNameA ?silent = Some app_exe"
    by (simp add: denying_host_def demo_host_def)
  have silent2: "fits MAX_PATH (unique_dir ?silent)"
    and silent3: "CreateDirectoryA ?silent (unique_dir ?silent) empty_world
      = (False, empty_world\<lparr>last_error := 5\<rparr>)"
    by (simp_all add: us refused)
  have silent5: "getchar ?silent = None"
    by simp
  note silent = silent1 silent2 silent3 denied4 silent5
  from silent3 denied4
    temp_dir_creation [OF silent1 silent2, of empty_world "empty_world\<lparr>last_error := 5\<rparr>"]
  have g2: "fst (stub_main ?silent empty_world)
          = (case getchar ?silent of None \<Rightarrow> Stuck_in_panic ?T | Some c \<Rightarrow> Panic ?T)"
    and g3: "process_exit_code (fst (stub_main ?silent empty_world))
          = (case getchar ?silent of None \<Rightarrow> None | Some c \<Rightarrow> Some 1)"
    by blast+
  from g2 have g: "fst (stub_main ?silent empty_world) = Stuck_in_panic ?T"
    by simp
  from g3 have g': "process_exit_code (fst (stub_main ?silent empty_world)) = None"
    by simp
  from d have d': "demo_dir \<in> set (dirs (snd (stub_main ?h empty_world)))
      \<and> out (snd (stub_main ?h (snd (stub_main ?h empty_world))))
        = extraction_line app_exe demo_dir @ extraction_line app_exe demo_dir"
    by (simp add: empty)
  from a c c' b d' e f f' f'' g g' show ?thesis
    by blast
qed

section \<open>The layout of the extracted tree and the child's command line (C10)\<close>

text \<open>
  The runtime is expected at \<open>bin\lune.exe\<close> and the entry script at \<open>src\main.luau\<close>
  under the temp directory \<open><dir>\<close>. When the name of the temp directory has at most 241
  characters, every string fits its buffer, and a run that passes the creation step makes
  one CreateProcessA call, with the command line
  \<open>"<dir>\bin\lune.exe" run "<dir>\src\main.luau"\<close> and the working directory \<open><dir>\<close>.
\<close>

lemma spawn_layout:
  assumes "GetModuleFileNameA h = Some exe_path"
    and "length (unique_dir h) \<le> 241"
    and "fst (stub_main h w) \<noteq> Panic ''Failed to create temp directory''"
    and "fst (stub_main h w) \<noteq> Stuck_in_panic ''Failed to create temp directory''"
  shows "spawned (snd (stub_main h w)) = spawned w @
     [([dquote] @ unique_dir h @ [backslash] @ ''bin'' @ [backslash] @ ''lune.exe'' @ [dquote]
         @ '' run ''
         @ [dquote] @ unique_dir h @ [backslash] @ ''src'' @ [backslash] @ ''main.luau''
         @ [dquote],
       unique_dir h)]"
proof -
  from assms(2) have fit: "fits MAX_PATH (unique_dir h)" "fits MAX_PATH (lune_path (unique_dir h))"
      "fits MAX_PATH (script_path (unique_dir h))"
      "fits (MAX_PATH * 2) (cmd_line (unique_dir h))"
    by (simp_all add: fits_def MAX_PATH_def length_paths)
  obtain created w' where mk: "CreateDirectoryA h (unique_dir h) w = (created, w')"
    by (cases "CreateDirectoryA h (unique_dir h) w")
  have sp: "spawned w' = spawned w"
    using mk by (auto simp: CreateDirectoryA_def split: if_splits option.splits)
  have pass: "created \<or> last_error w' = ERROR_ALREADY_EXISTS"
  proof (rule ccontr)
    assume "\<not> (created \<or> last_error w' = ERROR_ALREADY_EXISTS)"
    with assms(1) fit(1) mk
    have "stub_main h w = panic h ''Failed to create temp directory'' w'"
      by (simp add: stub_main_def)
    with assms(3,4) show False
      by (simp add: fst_panic split: option.splits)
  qed
  with assms(1) fit(1) mk have "stub_main h w = launch h exe_path (unique_dir h) w'"
    by (auto simp: stub_main_def)
  then show ?thesis
    using fit(2-4) sp
    by (simp add: launch_def Let_def extract_payload_def print_def panic_def eprint_def
        cmd_line_def lune_path_def script_path_def split: option.split child.split)
qed

text \<open>
  C10 says that the launcher always spawns the child with that command line and that
  working directory. The buffers are \<open>char[MAX_PATH]\<close> for the three paths and
  \<open>char[MAX_PATH * 2]\<close> for the command line, and every \<open>sprintf\<close> is unchecked. The
  command line is 36 characters longer than twice the name of the temp directory, so
  from 242 characters on it does not fit its 520 bytes, while the directory name and
  both paths still fit theirs up to 245. On the host with the long temp root the name has
  245 characters and the paths 258 and 259, but the command line has 526: the last
  \<open>sprintf\<close> writes past the end of \<open>cmd_line\<close>, and what CreateProcessA is then called
  with is whatever the clobbered buffers hold.
\<close>

theorem cmd_line_overflows:
  "MAX_PATH = 260
   \<and> length (unique_dir long_host) = 245
   \<and> length (lune_path (unique_dir long_host)) = 258
   \<and> length (script_path (unique_dir long_host)) = 259
   \<and> length (cmd_line (unique_dir long_host)) = 526
   \<and> fits MAX_PATH (unique_dir long_host)
   \<and> fits MAX_PATH (lune_path (unique_dir long_host))
   \<and> fits MAX_PATH (script_path (unique_dir long_host))
   \<and> \<not> fits (MAX_PATH * 2) (cmd_line (unique_dir long_host))
   \<and> fst (stub_main long_host empty_world) = Undefined"
proof -
  have len: "length (unique_dir long_host) = 245"
    by (simp add: unique_dir_def long_host_def demo_host_def digit_def)
  then have fit: "fits MAX_PATH (unique_dir long_host)"
      "fits MAX_PATH (lune_path (unique_dir long_host))"
      "fits MAX_PATH (script_path (unique_dir long_host))"
    and over: "\<not> fits (MAX_PATH * 2) (cmd_line (unique_dir long_host))"
    by (simp_all add: fits_def MAX_PATH_def length_paths)
  have exe: "GetModuleFileNameA long_host = Some app_exe"
    and ok: "mkdir_fault long_host (unique_dir long_host) = None"
    by (simp_all add: long_host_def demo_host_def)
  have mk: "CreateDirectoryA long_host (unique_dir long_host) empty_world
      = (True, empty_world\<lparr>dirs := [unique_dir long_host]\<rparr>)"
    by (simp add: CreateDirectoryA_def ok) (simp add: empty_world_def)
  have "stub_main long_host empty_world
      = launch long_host app_exe (unique_dir long_host)
          (empty_world\<lparr>dirs := [unique_dir long_host]\<rparr>)"
    using exe fit(1) mk by (rule stub_main_created)
  then have "fst (stub_main long_host empty_world) = Undefined"
    using over by (simp add: launch_def Let_def)
  with len fit over show ?thesis
    by (simp add: length_paths MAX_PATH_def)
qed

section \<open>Cleanup of the temp directory (C1)\<close>

text \<open>
  C1 says that the temp directory of an invocation is gone when the launcher exits, on
  every path. In stub.c the removal under \<open>// Cleanup\<close> is commented out ("Recursive
  delete needed") and \<open>panic\<close> exits without any removal. Two runs on the demo host, both
  starting without the directory: one whose child exits with code 0, one whose
  CreateProcessA fails. Each ends with the directory it created still there.
\<close>

theorem temp_dir_left_behind:
  "dirs empty_world = []
   \<and> fst (stub_main (demo_host (Some (Terminates 0))) empty_world) = Return 0
   \<and> dirs (snd (stub_main (demo_host (Some (Terminates 0))) empty_world)) = [demo_dir]
   \<and> fst (stub_main (demo_host None) empty_world) = Panic ''Failed to start Lune runtime''
   \<and> dirs (snd (stub_main (demo_host None) empty_world)) = [demo_dir]"
proof -
  have fresh: "demo_dir \<notin> set (dirs empty_world)" "demo_dir \<notin> set (map fst (files empty_world))"
    by (simp_all add: empty_world_def)
  show ?thesis
    by (simp add: stub_main_demo_host(1,2) [OF fresh]) (simp add: empty_world_def)
qed

section \<open>Build, locate and extract (C2, C3, C4)\<close>

text \<open>
  C2 says that building an archive, locating it in the image and extracting it gives the
  entries back. Neither half exists in the code: the \<open>build\<close> command writes no image
  (with the script \<open>game.luau\<close> in place, the files after the run are the files before),
  and the launcher, whatever the \<open>bytes\<close> of its own executable and whatever the
  host answers to CreateProcessA, leaves the files as they were: no entry is extracted.
\<close>

theorem payload_not_extracted:
  "files (snd (builder_main [''lunu-builder'', ''build'', ''game.luau'']
                 (empty_world\<lparr>files := [(''game.luau'', script)]\<rparr>)))
     = [(''game.luau'', script)]
   \<and> files (snd (stub_main (demo_host c) (empty_world\<lparr>files := [(app_exe, bytes)]\<rparr>)))
     = [(app_exe, bytes)]"
  by (simp add: files_stub_main) (simp add: builder_main_def print_def Let_def)

text \<open>
  C3 says that locating the archive fails with ArchiveNotFound when the image holds no
  trailer. The launcher never reads its image: run from the two bytes \<open>MZ\<close>, which hold
  no trailer, it creates the child and returns the child's exit code 0, with nothing
  written to stderr.
\<close>

theorem missing_archive_not_reported:
  "fst (stub_main (demo_host (Some (Terminates 0))) (empty_world\<lparr>files := [(app_exe, ''MZ'')]\<rparr>))
     = Return 0
   \<and> err (snd (stub_main (demo_host (Some (Terminates 0)))
                  (empty_world\<lparr>files := [(app_exe, ''MZ'')]\<rparr>))) = []"
proof -
  let ?w = "empty_world\<lparr>files := [(app_exe, ''MZ'')]\<rparr>"
  have fresh: "demo_dir \<notin> set (dirs ?w)" "demo_dir \<notin> set (map fst (files ?w))"
    by (simp_all add: empty_world_def app_exe_def demo_dir_def)
  let ?h = "demo_host (Some (Terminates 0))"
  have cp: "CreateProcessA ?h cmd cwd = Some (Terminates 0)" for cmd cwd
    by (simp add: demo_host_def)
  have gm: "GetModuleFileNameA ?h = Some app_exe"
    by (simp add: demo_host_def)
  have r: "fst (stub_main ?h ?w) = Return 0"
    by (simp add: stub_main_demo_host(1) [OF fresh])
  have "err (snd (stub_main ?h ?w)) = err ?w"
    by (rule err_stub_main_spawned) (simp_all add: cp gm r)
  also have "err ?w = []"
    by (simp add: empty_world_def)
  finally show ?thesis
    using r by simp
qed

text \<open>
  C4 says that an archive entry whose path leaves the destination, such as
  \<open>../outside.txt\<close>, makes extraction fail with UnsafePath. \<open>extract_payload\<close> has no
  failure: on an image that names such an entry the launcher goes on to create the child
  and returns its exit code. (It writes no file at all, inside the destination or
  outside.)
\<close>

theorem unsafe_path_not_rejected:
  "fst (stub_main (demo_host (Some (Terminates 0)))
          (empty_world\<lparr>files := [(app_exe, ''MZ PK ../outside.txt'')]\<rparr>))
     = Return 0
   \<and> files (extract_payload app_exe demo_dir
               (empty_world\<lparr>files := [(app_exe, ''MZ PK ../outside.txt'')]\<rparr>))
     = [(app_exe, ''MZ PK ../outside.txt'')]"
proof -
  let ?w = "empty_world\<lparr>files := [(app_exe, ''MZ PK ../outside.txt'')]\<rparr>"
  have fresh: "demo_dir \<notin> set (dirs ?w)" "demo_dir \<notin> set (map fst (files ?w))"
    by (simp_all add: empty_world_def app_exe_def demo_dir_def)
  show ?thesis
    by (simp add: stub_main_demo_host(1) [OF fresh] extract_payload_def print_def)
qed

section \<open>The derived output name (C6)\<close>

text \<open>
  C6 says that the derived name loses its final extension, that a name without extension
  gets the suffix appended whole, and that the result is relative to the current
  directory whatever directory the input names. The code cuts at the last dot of the
  whole path and keeps every directory component: an absolute input gives an absolute
  name, and a dot in a directory component is taken for the extension's.
\<close>

theorem output_exe_keeps_directory:
  "output_exe ''/opt/app/game.luau'' = ''/opt/app/game.exe''
   \<and> output_exe ''./noext'' = ''.exe''
   \<and> output_exe ''../scripts/noext'' = ''..exe''"
  by (simp add: output_exe_def)

section \<open>The build command (C7, C8)\<close>

text \<open>
  C7 says that \<open>build <script-file>\<close> writes the image to the derived output path and
  exits with code 0. With the script \<open>game.luau\<close> in the current directory the run
  returns 0 and announces \<open>./game.exe\<close>, but the files afterwards are the script alone.
\<close>

theorem build_writes_no_image:
  "fst (builder_main [''lunu-builder'', ''build'', ''game.luau'']
          (empty_world\<lparr>files := [(''game.luau'', ''print(1)'')]\<rparr>)) = Return 0
   \<and> files (snd (builder_main [''lunu-builder'', ''build'', ''game.luau'']
                   (empty_world\<lparr>files := [(''game.luau'', ''print(1)'')]\<rparr>)))
       = [(''game.luau'', ''print(1)'')]
   \<and> output_exe ''game.luau'' = ''game.exe''"
  by (simp add: builder_main_def print_def Let_def output_exe_def)

text \<open>
  C8 says that \<open>build\<close> on an input file that does not exist exits with code 1. The
  \<open>build\<close> branch never opens its input: in a world without any file it returns 0.
\<close>

theorem build_missing_input_returns_0:
  "files empty_world = []
   \<and> fst (builder_main [''lunu-builder'', ''build'', ''missing.luau''] empty_world) = Return 0
   \<and> process_exit_code
        (fst (builder_main [''lunu-builder'', ''build'', ''missing.luau''] empty_world)) = Some 0"
  by (simp add: builder_main_def Let_def empty_world_def)

section \<open>Further facts about the builder\<close>

lemma find_last_of_None_iff: "find_last_of s c = None \<longleftrightarrow> c \<notin> set s"
  by (induction s) (auto split: option.splits)

lemma find_last_of_append:
  "c \<notin> set ext \<Longrightarrow> find_last_of (base @ c # ext) c = Some (length base)"
proof (induction base)
  case Nil
  then have "find_last_of ext c = None"
    by (simp add: find_last_of_None_iff)
  then show ?case by simp
next
  case (Cons x base)
  then show ?case by simp
qed

text \<open>
  A file name without any dot gets \<open>.exe\<close> appended to the whole of it
  (\<open>noext\<close> gives \<open>noext.exe\<close>).
\<close>

theorem output_exe_without_dot:
  assumes "CHR ''.'' \<notin> set filename"
  shows "output_exe filename = filename @ ''.exe''"
proof -
  from assms have "find_last_of filename CHR ''.'' = None"
    by (simp add: find_last_of_None_iff)
  then show ?thesis
    by (simp add: output_exe_def)
qed

theorem output_exe_without_dot_witness: "output_exe ''noext'' = ''noext.exe''"
  using output_exe_without_dot [of "''noext''"] by simp

text \<open>
  Everything from the last dot of the path on is replaced by \<open>.exe\<close>
  (\<open>game.luau\<close> gives \<open>game.exe\<close>).
\<close>

theorem output_exe_cuts_at_last_dot:
  assumes "CHR ''.'' \<notin> set ext"
  shows "output_exe (base @ ''.'' @ ext) = base @ ''.exe''"
proof -
  from assms have "find_last_of (base @ CHR ''.'' # ext) CHR ''.'' = Some (length base)"
    by (rule find_last_of_append)
  then show ?thesis
    by (simp add: output_exe_def)
qed

theorem output_exe_cuts_at_last_dot_witness: "output_exe ''game.luau'' = ''game.exe''"
  using output_exe_cuts_at_last_dot [of "''luau''" "''game''"] by simp

text \<open>
  The exit codes of the builder: 1 without a command, 0 for \<open>version\<close>, 1 for \<open>build\<close>
  without a file, 0 for \<open>build\<close> with one, 1 for any other command.
\<close>

theorem builder_exit_codes:
  "(length argv < 2 \<longrightarrow> fst (builder_main argv w) = Return 1)
   \<and> (2 \<le> length argv \<and> argv ! 1 = ''version'' \<longrightarrow> fst (builder_main argv w) = Return 0)
   \<and> (length argv = 2 \<and> argv ! 1 = ''build'' \<longrightarrow> fst (builder_main argv w) = Return 1)
   \<and> (3 \<le> length argv \<and> argv ! 1 = ''build'' \<longrightarrow> fst (builder_main argv w) = Return 0)
   \<and> (2 \<le> length argv \<and> argv ! 1 \<noteq> ''version'' \<and> argv ! 1 \<noteq> ''build'' \<longrightarrow>
        fst (builder_main argv w) = Return 1)"
  by (simp add: builder_main_def Let_def)

theorem builder_exit_codes_witness:
  "fst (builder_main [''lunu-builder''] empty_world) = Return 1
   \<and> fst (builder_main [''lunu-builder'', ''version''] empty_world) = Return 0
   \<and> fst (builder_main [''lunu-builder'', ''build''] empty_world) = Return 1
   \<and> fst (builder_main [''lunu-builder'', ''build'', ''game.luau''] empty_world) = Return 0
   \<and> fst (builder_main [''lunu-builder'', ''pack''] empty_world) = Return 1"
  using builder_exit_codes [of "[''lunu-builder'']" empty_world]
    builder_exit_codes [of "[''lunu-builder'', ''version'']" empty_world]
    builder_exit_codes [of "[''lunu-builder'', ''build'']" empty_world]
    builder_exit_codes [of "[''lunu-builder'', ''build'', ''game.luau'']" empty_world]
    builder_exit_codes [of "[''lunu-builder'', ''pack'']" empty_world]
  by simp

section \<open>Further facts about the launcher\<close>

text \<open>
  The two other fatal errors: no executable path, and a CreateProcessA call that fails.
  A panic whose \<open>getchar()\<close> returns ends the process with exit code 1; one whose
  \<open>getchar()\<close> never returns does not end it.
\<close>

theorem launcher_fatal_errors:
  "(GetModuleFileNameA h = None \<longrightarrow>
      stub_main h w = panic h ''Failed to get executable path'' w)
   \<and> (stub_main h w = (r, w') \<and> spawned w' = spawned w @ [(cmd, cwd)]
        \<and> CreateProcessA h cmd cwd = None \<longrightarrow>
      (r = Panic ''Failed to start Lune runtime''
       \<or> r = Stuck_in_panic ''Failed to start Lune runtime''))
   \<and> (getchar h = Some c \<longrightarrow>
      fst (panic h msg w) = Panic msg \<and> process_exit_code (fst (panic h msg w)) = Some 1)
   \<and> (getchar h = None \<longrightarrow>
      fst (panic h msg w) = Stuck_in_panic msg
      \<and> process_exit_code (fst (panic h msg w)) = None)"
proof (intro conjI impI)
  assume "GetModuleFileNameA h = None"
  then show "stub_main h w = panic h ''Failed to get executable path'' w"
    by (simp add: stub_main_def)
next
  assume "stub_main h w = (r, w') \<and> spawned w' = spawned w @ [(cmd, cwd)]
      \<and> CreateProcessA h cmd cwd = None"
  then show "r = Panic ''Failed to start Lune runtime''
      \<or> r = Stuck_in_panic ''Failed to start Lune runtime''"
    by (auto simp: stub_defs split: option.splits if_splits prod.splits child.splits)
next
  assume "getchar h = Some c"
  then show "fst (panic h msg w) = Panic msg"
    and "process_exit_code (fst (panic h msg w)) = Some 1"
    by (simp_all add: panic_def)
next
  assume "getchar h = None"
  then show "fst (panic h msg w) = Stuck_in_panic msg"
    and "process_exit_code (fst (panic h msg w)) = None"
    by (simp_all add: panic_def)
qed

theorem launcher_fatal_errors_witness:
  "stub_main ((demo_host None)\<lparr>GetModuleFileNameA := None\<rparr>) empty_world
     = panic ((demo_host None)\<lparr>GetModuleFileNameA := None\<rparr>)
         ''Failed to get executable path'' empty_world
   \<and> fst (stub_main (demo_host None) empty_world) = Panic ''Failed to start Lune runtime''
   \<and> process_exit_code (fst (panic (demo_host None) ''Failed to start Lune runtime'' empty_world))
     = Some 1
   \<and> process_exit_code
        (fst (panic ((demo_host None)\<lparr>getchar := None\<rparr>) ''Failed to start Lune runtime''
                empty_world))
     = None"
proof -
  let ?h = "demo_host None"
  let ?silent = "?h\<lparr>getchar := None\<rparr>"
  have fresh: "demo_dir \<notin> set (dirs empty_world)" "demo_dir \<notin> set (map fst (files empty_world))"
    by (simp_all add: empty_world_def)
  have nopath: "GetModuleFileNameA (?h\<lparr>GetModuleFileNameA := None\<rparr>) = None"
    by simp
  have run: "stub_main ?h empty_world = (fst (stub_main ?h empty_world), snd (stub_main ?h empty_world))
      \<and> spawned (snd (stub_main ?h empty_world))
          = spawned empty_world @ [(cmd_line demo_dir, demo_dir)]
      \<and> CreateProcessA ?h (cmd_line demo_dir) demo_dir = None"
    using stub_main_demo_host(3) [OF fresh, of None] by (simp add: demo_host_def)
  have enter: "getchar ?h = Some 10" and silent: "getchar ?silent = None"
    by (simp_all add: demo_host_def)
  from nopath launcher_fatal_errors [of "?h\<lparr>GetModuleFileNameA := None\<rparr>" empty_world]
  have p1: "stub_main (?h\<lparr>GetModuleFileNameA := None\<rparr>) empty_world
      = panic (?h\<lparr>GetModuleFileNameA := None\<rparr>) ''Failed to get executable path'' empty_world"
    by blast
  from run launcher_fatal_errors [of ?h empty_world "fst (stub_main ?h empty_world)"
      "snd (stub_main ?h empty_world)" "cmd_line demo_dir" demo_dir]
  have "fst (stub_main ?h empty_world) = Panic ''Failed to start Lune runtime''
      \<or> fst (stub_main ?h empty_world) = Stuck_in_panic ''Failed to start Lune runtime''"
    by blast
  then have p2: "fst (stub_main ?h empty_world) = Panic ''Failed to start Lune runtime''"
    by (simp add: stub_main_demo_host(1) [OF fresh])
  from enter launcher_fatal_errors [where h = ?h and c = 10]
  have p3: "process_exit_code (fst (panic ?h ''Failed to start Lune runtime'' empty_world)) = Some 1"
    by blast
  from silent launcher_fatal_errors [where h = ?silent]
  have p4: "process_exit_code (fst (panic ?silent ''Failed to start Lune runtime'' empty_world))
      = None"
    by blast
  from p1 p2 p3 p4 show ?thesis
    by blast
qed

text \<open>
  The launcher waits without a timeout: when the child it created never terminates, the
  launcher never returns.
\<close>

theorem waits_for_ever:
  assumes "stub_main h w = (r, w')"
    and "spawned w' = spawned w @ [(cmd, cwd)]"
    and "CreateProcessA h cmd cwd = Some Never_terminates"
  shows "r = Never_returns \<and> process_exit_code r = None"
  using assms
  by (auto simp: stub_defs split: option.splits if_splits prod.splits child.splits)

theorem waits_for_ever_witness:
  "fst (stub_main (demo_host (Some Never_terminates)) empty_world) = Never_returns"
proof -
  let ?h = "demo_host (Some Never_terminates)"
  have fresh: "demo_dir \<notin> set (dirs empty_world)" "demo_dir \<notin> set (map fst (files empty_world))"
    by (simp_all add: empty_world_def)
  have run: "stub_main ?h empty_world = (fst (stub_main ?h empty_world), snd (stub_main ?h empty_world))"
    by simp
  have sp: "spawned (snd (stub_main ?h empty_world)) =
      spawned empty_world @ [(cmd_line demo_dir, demo_dir)]"
    using fresh by (rule stub_main_demo_host(3))
  have cp: "CreateProcessA ?h (cmd_line demo_dir) demo_dir = Some Never_terminates"
    by (simp add: demo_host_def)
  from waits_for_ever [OF run sp cp] show ?thesis
    by simp
qed

text \<open>
  What a run of the launcher leaves on disk, when every \<open>sprintf\<close> stays inside its
  buffer: the files are those it found, and every directory it found is still there.
\<close>

theorem launcher_removes_nothing:
  assumes "fst (stub_main h w) \<noteq> Undefined"
  shows "files (snd (stub_main h w)) = files w
    \<and> set (dirs w) \<subseteq> set (dirs (snd (stub_main h w)))"
  using files_stub_main [of h w] dirs_stub_main [of w h] by (rule conjI)

end
